theory Spec2Isabelle
  imports Complex_Main "HOL-Library.Sublist"
begin

section \<open>Valve configurator: the rule engine of the submit handlers\<close>

text \<open>
  The repository holds several versions of one browser script. Three submit handlers
  carry the rules that are verified here:
  \<^item> \<open>script\<close>: the handler of script.js, kept as \<open>unnamed/part_001\<close> (function mapping,
    body material switch, seal switch, display);
  \<^item> \<open>snapshot\<close>: the synchronous handler in the second document of
    \<open>.history/static/script_20250728154145.js\<close> (same structure, with prompts for an
    unset function and an unset material);
  \<^item> \<open>ai\<close>: the asynchronous handler in the first document of that file (pressure and
    temperature envelope checks, then the answer of the recommendation service).

  Each handler is modelled in two layers: \<open>checkValidity\<close> and the \<open>handler\<close>
  functions give the return at the validity check; the \<open>rules\<close> and \<open>submit\<close>
  functions give what the statements after that check compute.

  Numbers: \<open>temperature\<close> and \<open>pressure\<close> are the doubles returned by \<open>parseFloat\<close> on
  two required number inputs; the handlers return before reading them when the form is
  invalid, so they are finite. They are modelled by the real number the double denotes.
  Every constant they are compared with is an integer, except \<open>0.1\<close>: the double written
  \<open>0.1\<close> is the double nearest to one tenth and lies above it, so for a double \<open>p\<close> the
  test \<open>p < 0.1\<close> holds exactly when \<open>p\<close> is below one tenth.

  Strings: a JavaScript string is modelled by the list of bytes of its UTF-8 encoding,
  which keeps equality and the search for an ASCII substring. \<open>nominalDiameter\<close> and
  \<open>fluidType\<close> are the handler's constants of that name, read after \<open>toLowerCase()\<close>.
\<close>

subsection \<open>The strings of the handlers\<close>

definition GATE_VALVES :: string where
  "GATE_VALVES =
     ''Gate Valves (Vannes passage direct)''"

definition BUTTERFLY_VALVES :: string where
  "BUTTERFLY_VALVES =
     ''Butterfly Valves (Vannes '' @ [CHR 0xC3, CHR 0xA0] @ '' papillon)''"

definition BALL_VALVES :: string where
  "BALL_VALVES =
     ''Ball Valves (Robinets boisseau sph'' @ [CHR 0xC3, CHR 0xA9] @ ''rique)''"

definition KNIFE_GATE_VALVES :: string where
  "KNIFE_GATE_VALVES =
     ''Knife Gate Valves (Robinets vanne '' @ [CHR 0xC3, CHR 0xA0]
     @ '' guillotine)''"

definition GLOBE_VALVES :: string where
  "GLOBE_VALVES =
     ''Globe Valves (Robinets '' @ [CHR 0xC3, CHR 0xA0] @ '' soupape)''"

definition WEIR_DIAPHRAGM_VALVES :: string where
  "WEIR_DIAPHRAGM_VALVES =
     ''Weir Type Diaphragm Valves (Robinet '' @ [CHR 0xC3, CHR 0xA0]
     @ '' membrane)''"

definition NEEDLE_VALVES :: string where
  "NEEDLE_VALVES =
     ''Needle Valves (Robinet '' @ [CHR 0xC3, CHR 0xA0] @ '' pointeau)''"

definition NEEDLE_VALVES_0728 :: string where
  "NEEDLE_VALVES_0728 =
     ''Needle Valves (Robinets '' @ [CHR 0xC3, CHR 0xA0] @ '' pointeau)''"

definition BUTTERFLY_VALVES_REG :: string where
  "BUTTERFLY_VALVES_REG =
     ''Butterfly Valves (Robinet vanne '' @ [CHR 0xC3, CHR 0xA0] @ '' papillon)''"

definition GLOBE_VALVES_REG :: string where
  "GLOBE_VALVES_REG =
     ''Globe Valves (Robinet '' @ [CHR 0xC3, CHR 0xA0] @ '' soupape)''"

definition KNIFE_GATE_V_DEFLECTOR :: string where
  "KNIFE_GATE_V_DEFLECTOR =
     ''Knife Gate Valves with '' @ [CHR 0x22] @ ''V'' @ [CHR 0x22]
     @ '' Deflector (Robinets vanne '' @ [CHR 0xC3, CHR 0xA0]
     @ '' guillotine avec '' @ [CHR 0x22] @ ''V'' @ [CHR 0x22] @ '' de r''
     @ [CHR 0xC3, CHR 0xA9] @ ''gulation)''"

definition SELECT_FUNCTION_PROMPT :: string where
  "SELECT_FUNCTION_PROMPT =
     ''Please select a primary function for the valve.''"

definition CAST_IRON_STEAM_WARNING :: string where
  "CAST_IRON_STEAM_WARNING =
     ''Warning: Cast Iron has limited use for steam above 10 bar / 180''
     @ [CHR 0xC2, CHR 0xB0]
     @ ''C. Consider other materials for steam applications.''"

definition BRASS_SIZE_WARNING :: string where
  "BRASS_SIZE_WARNING =
     ''Warning: Brass is generally limited to DN100. Consider ''
     @ ''other materials for larger diameters.''"

definition BRASS_CHEMICAL_WARNING :: string where
  "BRASS_CHEMICAL_WARNING =
     ''Warning: Brass is not suitable for corrosive fluids, acids, ''
     @ ''or ammonia.''"

definition BRONZE_CHEMICAL_WARNING :: string where
  "BRONZE_CHEMICAL_WARNING =
     ''Warning: Bronze is not suitable for corrosive fluids, ''
     @ ''acids, or ammonia.''"

definition DUPLEX_SEA_WATER_NOTE :: string where
  "DUPLEX_SEA_WATER_NOTE =
     ''Duplex/Super Duplex is highly recommended for sea water ''
     @ ''applications.''"

definition SELECT_MATERIAL_PROMPT :: string where
  "SELECT_MATERIAL_PROMPT =
     ''Please select a body and bonnet material.''"

definition NO_MATERIAL_MATCH :: string where
  "NO_MATERIAL_MATCH =
     ''No valves found matching the selected body/bonnet material ''
     @ ''and operating conditions. Please review your material, ''
     @ ''temperature, and pressure selections.''"

definition ELASTOMER_WARNING :: string where
  "ELASTOMER_WARNING =
     ''Warning: Elastomer seals have low resistance to erosion and ''
     @ ''corrosion, and are sensitive to abrasion.''"

definition PTFE_NUCLEAR_WARNING :: string where
  "PTFE_NUCLEAR_WARNING =
     ''Warning: PTFE is prohibited in nuclear power plants.''"

definition STELLITE_NOTE :: string where
  "STELLITE_NOTE =
     ''Stellite is recommended for severe conditions and abrasive fluids.''"

definition NO_SEAL_MATCH :: string where
  "NO_SEAL_MATCH =
     ''No valves found matching the selected seal surface material ''
     @ ''and operating conditions.''"

definition WARNING_1 :: string where
  "WARNING_1 =
     ''Warning: High temperature with very low pressure may ''
     @ ''indicate flashing fluids or vacuum service. Specialized ''
     @ ''valves (e.g., globe valves for flashing, or specific ''
     @ ''materials/designs for vacuum) may be required. Consult a ''
     @ ''specialist.''"

definition WARNING_2 :: string where
  "WARNING_2 =
     ''Warning: Very low temperature combined with high pressure ''
     @ ''might require cryogenic or high-pressure gas service ''
     @ ''valves. Ensure material selection (e.g., stainless steel, ''
     @ ''special alloys) is appropriate for these extreme conditions.''"

definition WARNING_3 :: string where
  "WARNING_3 =
     ''Warning: Extremely high pressure and high temperature ''
     @ ''conditions indicate a super-critical fluid or very ''
     @ ''specialized application. Valve design and material ''
     @ ''selection are critical and require expert consultation.''"

definition WARNING_4 :: string where
  "WARNING_4 =
     ''Warning: Very low pressure combined with very low ''
     @ ''temperature suggests cryogenic vacuum service. This ''
     @ ''requires highly specialized valve designs and materials to ''
     @ ''prevent leakage and material embrittlement.''"

definition WARNING_5 :: string where
  "WARNING_5 =
     ''Warning: Very high pressure at low temperatures (below 0''
     @ [CHR 0xC2, CHR 0xB0]
     @ ''C) indicates high-pressure cryogenic gas service. This ''
     @ ''requires robust materials and specialized sealing to ''
     @ ''prevent embrittlement and leakage.''"

definition WARNING_6 :: string where
  "WARNING_6 =
     ''Warning: Very low pressure at extremely high temperatures ''
     @ ''(above 400'' @ [CHR 0xC2, CHR 0xB0]
     @ ''C) suggests high-temperature vacuum or highly expanded gas. ''
     @ ''This requires specialized valve designs for sealing and ''
     @ ''material resistance to creep/oxidation.''"

definition NO_AI_RECOMMENDATIONS :: string where
  "NO_AI_RECOMMENDATIONS =
     ''No specific recommendations from AI. Please adjust your '' @ ''selections.''"

definition BACKEND_ERROR :: string where
  "BACKEND_ERROR =
     ''Error contacting the recommendation service. Please ensure ''
     @ ''the Python backend is running and reachable.''"

subsection \<open>Form values, handler variables, page\<close>

text \<open>The constants a handler reads from the form before it evaluates any rule.\<close>

record form_values =
  mainFunction :: string
  bodyBonnetMaterial :: string
  temperature :: real
  pressure :: real
  sealSurfaceMaterial :: string
  nominalDiameter :: string
  fluidType :: string

text \<open>
  The variables a handler assigns: the \<open>Set\<close> \<open>recommendations\<close> in insertion order,
  the flags \<open>suitable\<close> and \<open>materialViable\<close>, and \<open>sealViable\<close>, which the source
  declares inside the seal block (it is read only there).
\<close>

record locals =
  recommendations :: "string list"
  suitable :: bool
  materialViable :: bool
  sealViable :: bool

text \<open>What the handler leaves on the page: the items of \<open>valveList\<close> and whether
  \<open>noResultsMessage\<close> is shown (its class \<open>d-none\<close> removed).\<close>

record page =
  valveList :: "string list"
  noResultsShown :: bool

definition initial :: locals where
  "initial = \<lparr>recommendations = [], suitable = True, materialViable = False,
     sealViable = False\<rparr>"

text \<open>\<open>Set.prototype.add\<close>: a value already in the set keeps its place.\<close>

definition Set_add :: "string list \<Rightarrow> string \<Rightarrow> string list" where
  "Set_add rs x = (if x \<in> set rs then rs else rs @ [x])"

definition recommend :: "string \<Rightarrow> locals \<Rightarrow> locals" where
  "recommend x l = l\<lparr>recommendations := Set_add (recommendations l) x\<rparr>"

definition recommend_all :: "string list \<Rightarrow> locals \<Rightarrow> locals" where
  "recommend_all xs l = l\<lparr>recommendations := foldl Set_add (recommendations l) xs\<rparr>"

text \<open>\<open>String.prototype.includes\<close>: the argument occurs as a contiguous part.\<close>

definition js_includes :: "string \<Rightarrow> string \<Rightarrow> bool" where
  "js_includes s sub = sublist sub s"

subsection \<open>The diameter test of the brass case\<close>

text \<open>
  \<open>nominalDiameter.replace(/[^\d.]/g, '')\<close> keeps the digits and the dots.
  \<open>parseFloat\<close> then reads the longest prefix that is a decimal literal: digits, then
  at most one dot followed by digits, with at least one digit in all; without such a
  prefix the result is \<open>NaN\<close>, here \<open>None\<close>. (No sign, exponent, blank or \<open>Infinity\<close>
  can occur in a string of digits and dots.) \<open>Some v\<close> carries the exact decimal value;
  the double that \<open>parseFloat\<close> returns is the one nearest to it.
\<close>

definition is_digit :: "char \<Rightarrow> bool" where
  "is_digit c = (c \<in> set ''0123456789'')"

definition digits_and_dots :: "string \<Rightarrow> string" where
  "digits_and_dots s = filter (\<lambda>c. is_digit c \<or> c = CHR ''.'') s"

definition digit_value :: "char \<Rightarrow> nat" where
  "digit_value c = of_char c - 48"

definition digits_value :: "string \<Rightarrow> nat" where
  "digits_value ds = foldl (\<lambda>n c. 10 * n + digit_value c) 0 ds"

definition parseFloat :: "string \<Rightarrow> real option" where
  "parseFloat s =
    (let ip = takeWhile is_digit s;
         rest = dropWhile is_digit s;
         fp = (case rest of [] \<Rightarrow> [] | c # cs \<Rightarrow>
                 if c = CHR ''.'' then takeWhile is_digit cs else [])
     in if ip = [] \<and> fp = [] then None
        else Some (real (digits_value ip) + real (digits_value fp) / 10 ^ length fp))"

text \<open>
  \<open>x > 100\<close> for the result of \<open>parseFloat\<close>. \<open>NaN > 100\<close> is false. For a number the
  comparison is made on the double nearest to the decimal value \<open>v\<close> (round to nearest,
  ties to even): 100 is a double, the next double above it is 100 plus 2 to the power
  -46, and a value halfway between the two is rounded to 100 (whose last mantissa bit
  is 0), so the double exceeds 100 exactly when \<open>v\<close> exceeds 100 plus 2 to the power -47.
\<close>

definition gt_100 :: "real option \<Rightarrow> bool" where
  "gt_100 x = (case x of None \<Rightarrow> False | Some v \<Rightarrow> v > 100 + 1 / 2 ^ 47)"

definition brass_diameter_test :: "string \<Rightarrow> bool" where
  "brass_diameter_test d =
     (js_includes d ''dn100'' \<or> (d \<noteq> [] \<and> gt_100 (parseFloat (digits_and_dots d))))"

subsection \<open>The handler of script.js\<close>

text \<open>Function to families: \<open>if (mainFunction === 'on_off') ... else suitable = false\<close>.\<close>

definition script_main_function :: "form_values \<Rightarrow> locals \<Rightarrow> locals" where
  "script_main_function f l =
     (if mainFunction f = ''on_off'' then
        recommend_all [GATE_VALVES, BUTTERFLY_VALVES, BALL_VALVES, KNIFE_GATE_VALVES] l
      else if mainFunction f = ''regulation'' then
        recommend_all [GLOBE_VALVES, WEIR_DIAPHRAGM_VALVES, NEEDLE_VALVES] l
      else if mainFunction f = ''on_off_regulation'' then
        recommend_all [WEIR_DIAPHRAGM_VALVES, BUTTERFLY_VALVES_REG, GLOBE_VALVES_REG,
          KNIFE_GATE_V_DEFLECTOR] l
      else l\<lparr>suitable := False\<rparr>)"

text \<open>The cases of \<open>switch (bodyBonnetMaterial)\<close>, entered with
  \<open>materialViable = false\<close>.\<close>

definition case_cast_iron :: "form_values \<Rightarrow> locals \<Rightarrow> locals" where
  "case_cast_iron f l =
     (if js_includes (fluidType f) ''steam'' \<and> (temperature f > 180 \<or> pressure f > 10)
      then recommend CAST_IRON_STEAM_WARNING (l\<lparr>materialViable := False\<rparr>)
      else if temperature f \<le> 184 \<and> pressure f \<le> 16 then l\<lparr>materialViable := True\<rparr>
      else l)"

definition case_ductile_iron :: "form_values \<Rightarrow> locals \<Rightarrow> locals" where
  "case_ductile_iron f l =
     (if temperature f \<le> 350 \<and> pressure f \<le> 25 then l\<lparr>materialViable := True\<rparr> else l)"

definition case_carbon_steel :: "form_values \<Rightarrow> locals \<Rightarrow> locals" where
  "case_carbon_steel f l =
     (if temperature f \<ge> - 20 \<and> temperature f \<le> 425 \<and> pressure f \<le> 400
      then l\<lparr>materialViable := True\<rparr> else l)"

definition case_stainless_steel :: "form_values \<Rightarrow> locals \<Rightarrow> locals" where
  "case_stainless_steel f l =
     (if temperature f \<ge> - 200 \<and> temperature f \<le> 420 \<and> pressure f \<le> 400
      then l\<lparr>materialViable := True\<rparr> else l)"

definition case_stainless_steel_310 :: "form_values \<Rightarrow> locals \<Rightarrow> locals" where
  "case_stainless_steel_310 f l =
     (if temperature f \<ge> - 200 \<and> temperature f \<le> 550 \<and> pressure f \<le> 400
      then l\<lparr>materialViable := True\<rparr> else l)"

definition chemical :: "string \<Rightarrow> bool" where
  "chemical fl =
     (js_includes fl ''corrosive'' \<or> js_includes fl ''acid'' \<or> js_includes fl ''ammonia'')"

definition case_brass :: "form_values \<Rightarrow> locals \<Rightarrow> locals" where
  "case_brass f l =
     (let l1 = (if brass_diameter_test (nominalDiameter f)
                then recommend BRASS_SIZE_WARNING (l\<lparr>materialViable := False\<rparr>) else l);
          l2 = (if chemical (fluidType f)
                then recommend BRASS_CHEMICAL_WARNING (l1\<lparr>materialViable := False\<rparr>)
                else l1)
      in if temperature f \<le> 100 \<and> pressure f \<le> 64 then l2\<lparr>materialViable := True\<rparr>
         else l2)"

definition case_bronze :: "form_values \<Rightarrow> locals \<Rightarrow> locals" where
  "case_bronze f l =
     (let l1 = (if chemical (fluidType f)
                then recommend BRONZE_CHEMICAL_WARNING (l\<lparr>materialViable := False\<rparr>)
                else l)
      in if temperature f \<le> 100 \<and> pressure f \<le> 64 then l1\<lparr>materialViable := True\<rparr>
         else l1)"

definition case_duplex_super_duplex :: "form_values \<Rightarrow> locals \<Rightarrow> locals" where
  "case_duplex_super_duplex f l =
     (if js_includes (fluidType f) ''sea water''
      then recommend DUPLEX_SEA_WATER_NOTE (l\<lparr>materialViable := True\<rparr>)
      else l\<lparr>materialViable := True\<rparr>)"

definition case_plastic :: "form_values \<Rightarrow> locals \<Rightarrow> locals" where
  "case_plastic f l =
     (if temperature f \<le> 60 \<and> pressure f \<le> 16 then l\<lparr>materialViable := True\<rparr> else l)"

text \<open>The switch of script.js; its \<open>default\<close> sets \<open>materialViable = true\<close>.\<close>

definition script_body_material :: "form_values \<Rightarrow> locals \<Rightarrow> locals" where
  "script_body_material f l0 =
     (let l = l0\<lparr>materialViable := False\<rparr>; m = bodyBonnetMaterial f in
      if m = ''cast_iron'' then case_cast_iron f l
      else if m = ''ductile_iron'' then case_ductile_iron f l
      else if m = ''carbon_steel'' then case_carbon_steel f l
      else if m = ''stainless_steel'' then case_stainless_steel f l
      else if m = ''stainless_steel_310'' then case_stainless_steel_310 f l
      else if m = ''brass'' then case_brass f l
      else if m = ''bronze'' then case_bronze f l
      else if m = ''duplex_super_duplex'' then case_duplex_super_duplex f l
      else if m = ''plastic'' then case_plastic f l
      else l\<lparr>materialViable := True\<rparr>)"

text \<open>\<open>if (!materialViable) { suitable = false; recommendations.add(...) }\<close>.\<close>

definition script_material_gate :: "locals \<Rightarrow> locals" where
  "script_material_gate l =
     (if \<not> materialViable l then recommend NO_MATERIAL_MATCH (l\<lparr>suitable := False\<rparr>)
      else l)"

text \<open>The seal block, the same text in script.js and in the snapshot: skipped for the
  empty string; a \<open>switch\<close> without \<open>default\<close>, entered with \<open>sealViable = false\<close>.\<close>

definition seal_switch :: "form_values \<Rightarrow> locals \<Rightarrow> locals" where
  "seal_switch f l =
     (let m = sealSurfaceMaterial f; t = temperature f; p = pressure f; fl = fluidType f in
      if m = ''elastomer'' then
        (let l1 = (if t \<le> 120 \<and> \<not> js_includes fl ''abrasive''
                      \<and> \<not> js_includes fl ''corrosive''
                   then l\<lparr>sealViable := True\<rparr> else l)
         in if js_includes fl ''abrasive'' \<or> js_includes fl ''corrosive''
            then recommend ELASTOMER_WARNING l1 else l1)
      else if m = ''ptfe'' then
        (let l1 = (if t \<le> 200 \<and> \<not> js_includes fl ''nuclear''
                   then l\<lparr>sealViable := True\<rparr> else l)
         in if js_includes fl ''nuclear'' then recommend PTFE_NUCLEAR_WARNING l1 else l1)
      else if m = ''rubber_seal'' then (if t \<le> 130 then l\<lparr>sealViable := True\<rparr> else l)
      else if m = ''copper_alloys'' then
        (if t \<le> 200 \<and> p \<le> 16 then l\<lparr>sealViable := True\<rparr> else l)
      else if m = ''stainless_steel_seal'' then
        (if t \<ge> 420 then l\<lparr>sealViable := True\<rparr> else l)
      else if m = ''stellite'' then recommend STELLITE_NOTE (l\<lparr>sealViable := True\<rparr>)
      else l)"

definition seal_surface_material :: "form_values \<Rightarrow> locals \<Rightarrow> locals" where
  "seal_surface_material f l =
     (if sealSurfaceMaterial f \<noteq> [] then
        (let l1 = seal_switch f (l\<lparr>sealViable := False\<rparr>)
         in if \<not> sealViable l1 then recommend NO_SEAL_MATCH (l1\<lparr>suitable := False\<rparr>)
            else l1)
      else l)"

definition script_rules :: "form_values \<Rightarrow> locals" where
  "script_rules f =
     seal_surface_material f
       (script_material_gate (script_body_material f (script_main_function f initial)))"

text \<open>Display: every entry when \<open>suitable\<close>; else the single entry when it is one of the
  two no-match messages; else the no-results message.\<close>

definition script_display :: "locals \<Rightarrow> page" where
  "script_display l =
     (let rs = recommendations l in
      if length rs > 0 \<and> suitable l then \<lparr>valveList = rs, noResultsShown = False\<rparr>
      else if length rs = 1 \<and> (NO_MATERIAL_MATCH \<in> set rs \<or> NO_SEAL_MATCH \<in> set rs)
        then \<lparr>valveList = [hd rs], noResultsShown = False\<rparr>
      else \<lparr>valveList = [], noResultsShown = True\<rparr>)"

definition script_submit :: "form_values \<Rightarrow> page" where
  "script_submit f = script_display (script_rules f)"

subsection \<open>The synchronous handler of the snapshot\<close>

text \<open>Second document of \<open>.history/static/script_20250728154145.js\<close>. An unset
  function adds a prompt.\<close>

definition snapshot_main_function :: "form_values \<Rightarrow> locals \<Rightarrow> locals" where
  "snapshot_main_function f l =
     (if mainFunction f = ''on_off'' then
        recommend_all [GATE_VALVES, BUTTERFLY_VALVES, BALL_VALVES, KNIFE_GATE_VALVES] l
      else if mainFunction f = ''regulation'' then
        recommend_all [GLOBE_VALVES, WEIR_DIAPHRAGM_VALVES, NEEDLE_VALVES_0728] l
      else if mainFunction f = ''on_off_regulation'' then
        recommend_all [WEIR_DIAPHRAGM_VALVES, BUTTERFLY_VALVES_REG, GLOBE_VALVES,
          KNIFE_GATE_V_DEFLECTOR] l
      else recommend SELECT_FUNCTION_PROMPT (l\<lparr>suitable := False\<rparr>))"

text \<open>The switch of the snapshot: \<open>case 'stainless_steel':\<close> and
  \<open>case 'stainless_steel_310':\<close> label one statement, the test against 420; the
  \<open>default\<close> sets \<open>suitable = false\<close> and adds a prompt. The other cases have the text
  of script.js.\<close>

definition snapshot_body_material :: "form_values \<Rightarrow> locals \<Rightarrow> locals" where
  "snapshot_body_material f l0 =
     (let l = l0\<lparr>materialViable := False\<rparr>; m = bodyBonnetMaterial f in
      if m = ''cast_iron'' then case_cast_iron f l
      else if m = ''ductile_iron'' then case_ductile_iron f l
      else if m = ''carbon_steel'' then case_carbon_steel f l
      else if m = ''stainless_steel'' \<or> m = ''stainless_steel_310''
        then case_stainless_steel f l
      else if m = ''brass'' then case_brass f l
      else if m = ''bronze'' then case_bronze f l
      else if m = ''duplex_super_duplex'' then case_duplex_super_duplex f l
      else if m = ''plastic'' then case_plastic f l
      else recommend SELECT_MATERIAL_PROMPT (l\<lparr>suitable := False\<rparr>))"

text \<open>\<open>if (!materialViable && bodyBonnetMaterial !== '') { ... }\<close>.\<close>

definition snapshot_material_gate :: "form_values \<Rightarrow> locals \<Rightarrow> locals" where
  "snapshot_material_gate f l =
     (if \<not> materialViable l \<and> bodyBonnetMaterial f \<noteq> []
      then recommend NO_MATERIAL_MATCH (l\<lparr>suitable := False\<rparr>)
      else l)"

definition snapshot_rules :: "form_values \<Rightarrow> locals" where
  "snapshot_rules f =
     seal_surface_material f
       (snapshot_material_gate f
          (snapshot_body_material f (snapshot_main_function f initial)))"

text \<open>Display of the snapshot, the same in its two handlers: every entry when
  \<open>suitable\<close> and the set is not empty, else the no-results message.\<close>

definition snapshot_display :: "locals \<Rightarrow> page" where
  "snapshot_display l =
     (if suitable l \<and> length (recommendations l) > 0
      then \<lparr>valveList = recommendations l, noResultsShown = False\<rparr>
      else \<lparr>valveList = [], noResultsShown = True\<rparr>)"

definition snapshot_submit :: "form_values \<Rightarrow> page" where
  "snapshot_submit f = snapshot_display (snapshot_rules f)"

subsection \<open>The asynchronous handler of the snapshot\<close>

text \<open>First document of the same file. The thresholds are its constants.\<close>

definition HIGH_TEMP_THRESHOLD :: real where "HIGH_TEMP_THRESHOLD = 100"
definition LOW_PRESSURE_THRESHOLD :: real where "LOW_PRESSURE_THRESHOLD = 1"
definition VERY_LOW_TEMP_THRESHOLD :: real where "VERY_LOW_TEMP_THRESHOLD = 0"
definition HIGH_PRESSURE_THRESHOLD :: real where "HIGH_PRESSURE_THRESHOLD = 50"
definition EXTREME_HIGH_TEMP_THRESHOLD :: real where "EXTREME_HIGH_TEMP_THRESHOLD = 400"
definition EXTREME_HIGH_PRESSURE_THRESHOLD :: real where
  "EXTREME_HIGH_PRESSURE_THRESHOLD = 200"
definition EXTREME_LOW_TEMP_THRESHOLD :: real where "EXTREME_LOW_TEMP_THRESHOLD = - 50"
definition VACUUM_PRESSURE_THRESHOLD :: real where "VACUUM_PRESSURE_THRESHOLD = 1 / 10"

text \<open>The chain \<open>if ... else if ...\<close> of Warnings 1 to 6; each branch adds its
  warning and sets \<open>suitable = false\<close>; \<open>t\<close> and \<open>p\<close> stand for
  \<open>temperature\<close> and \<open>pressure\<close>.\<close>

definition envelope_checks :: "real \<Rightarrow> real \<Rightarrow> locals \<Rightarrow> locals" where
  "envelope_checks t p l =
     (if t > HIGH_TEMP_THRESHOLD \<and> p < LOW_PRESSURE_THRESHOLD
        then (recommend WARNING_1 l)\<lparr>suitable := False\<rparr>
      else if t < VERY_LOW_TEMP_THRESHOLD \<and> p > HIGH_PRESSURE_THRESHOLD
        then (recommend WARNING_2 l)\<lparr>suitable := False\<rparr>
      else if p > EXTREME_HIGH_PRESSURE_THRESHOLD
          \<and> t > EXTREME_HIGH_TEMP_THRESHOLD
        then (recommend WARNING_3 l)\<lparr>suitable := False\<rparr>
      else if p < VACUUM_PRESSURE_THRESHOLD
          \<and> t < EXTREME_LOW_TEMP_THRESHOLD
        then (recommend WARNING_4 l)\<lparr>suitable := False\<rparr>
      else if p > EXTREME_HIGH_PRESSURE_THRESHOLD
          \<and> t < VERY_LOW_TEMP_THRESHOLD
        then (recommend WARNING_5 l)\<lparr>suitable := False\<rparr>
      else if p < LOW_PRESSURE_THRESHOLD
          \<and> t > EXTREME_HIGH_TEMP_THRESHOLD
        then (recommend WARNING_6 l)\<lparr>suitable := False\<rparr>
      else l)"

text \<open>
  What the request to \<open>/recommend\<close> brings back, seen from the handler.
  \<open>Service_error\<close>: control reaches the \<open>catch\<close> block (the request fails, the status
  is not ok, or reading the answer throws). \<open>Service_data recs not_suitable\<close>: the
  answer is read; \<open>recs\<close> are the strings of \<open>data.recommendations\<close> (none when the
  field is missing or empty) and \<open>not_suitable\<close> tells whether \<open>data.suitable\<close> is
  \<open>false\<close>.
\<close>

datatype service_outcome = Service_error | Service_data "string list" bool

definition service_step :: "service_outcome \<Rightarrow> locals \<Rightarrow> locals" where
  "service_step r l =
     (case r of
        Service_data recs not_suitable \<Rightarrow>
          (if length recs > 0 then (recommend_all recs l)\<lparr>suitable := \<not> not_suitable\<rparr>
           else recommend NO_AI_RECOMMENDATIONS (l\<lparr>suitable := False\<rparr>))
      | Service_error \<Rightarrow> recommend BACKEND_ERROR (l\<lparr>suitable := False\<rparr>))"

definition ai_rules :: "form_values \<Rightarrow> service_outcome \<Rightarrow> locals" where
  "ai_rules f r = service_step r (envelope_checks (temperature f) (pressure f) initial)"

definition ai_submit :: "form_values \<Rightarrow> service_outcome \<Rightarrow> page" where
  "ai_submit f r = snapshot_display (ai_rules f r)"

subsection \<open>The validity check\<close>

text \<open>
  Each handler starts with \<open>if (!form.checkValidity()) { ...; return; }\<close>. The form
  (\<open>templates/index.html\<close> and \<open>unnamed/part_000\<close>; its tag has \<open>novalidate\<close>, so the
  handler runs on every submission) constrains the controls that the record holds as
  follows. The selects \<open>mainFunction\<close> and \<open>bodyBonnetMaterial\<close> are \<open>required\<close>, and
  their only empty value is the placeholder option. \<open>temperature\<close> is a \<open>required\<close>
  number input with \<open>min="-200"\<close>, \<open>max="850"\<close> and no \<open>step\<close>, so its step is 1
  counted from the minimum; \<open>pressure\<close> is one with \<open>min="0"\<close> and \<open>max="400"\<close>.
  \<open>others\<close> stands for the validity of the controls that the record does not hold
  (the required actuation type, the optional number inputs).
\<close>

definition checkValidity :: "bool \<Rightarrow> form_values \<Rightarrow> bool" where
  "checkValidity others f =
     (others \<and> mainFunction f \<noteq> [] \<and> bodyBonnetMaterial f \<noteq> []
      \<and> temperature f \<in> \<int> \<and> - 200 \<le> temperature f \<and> temperature f \<le> 850
      \<and> pressure f \<in> \<int> \<and> 0 \<le> pressure f \<and> pressure f \<le> 400)"



definition ai_handler :: "bool \<Rightarrow> form_values \<Rightarrow> service_outcome \<Rightarrow> page option" where
  "ai_handler others f r =
     (if \<not> checkValidity others f then None else Some (ai_submit f r))"

subsection \<open>Concrete form values\<close>

definition example ::
  "string \<Rightarrow> string \<Rightarrow> real \<Rightarrow> real \<Rightarrow> string \<Rightarrow> string \<Rightarrow> string \<Rightarrow> form_values" where
  "example fn m t p s d fl = \<lparr>mainFunction = fn, bodyBonnetMaterial = m, temperature = t,
     pressure = p, sealSurfaceMaterial = s, nominalDiameter = d, fluidType = fl\<rparr>"

text \<open>Every string literal that a handler adds to \<open>recommendations\<close>.\<close>

definition all_strings :: "string list" where
  "all_strings = [GATE_VALVES, BUTTERFLY_VALVES, BALL_VALVES, KNIFE_GATE_VALVES,
     GLOBE_VALVES, WEIR_DIAPHRAGM_VALVES, NEEDLE_VALVES, NEEDLE_VALVES_0728,
     BUTTERFLY_VALVES_REG, GLOBE_VALVES_REG, KNIFE_GATE_V_DEFLECTOR,
     SELECT_FUNCTION_PROMPT, CAST_IRON_STEAM_WARNING, BRASS_SIZE_WARNING,
     BRASS_CHEMICAL_WARNING, BRONZE_CHEMICAL_WARNING, DUPLEX_SEA_WATER_NOTE,
     SELECT_MATERIAL_PROMPT, NO_MATERIAL_MATCH, ELASTOMER_WARNING,
     PTFE_NUCLEAR_WARNING, STELLITE_NOTE, NO_SEAL_MATCH, WARNING_1, WARNING_2,
     WARNING_3, WARNING_4, WARNING_5, WARNING_6, NO_AI_RECOMMENDATIONS,
     BACKEND_ERROR]"

subsection \<open>The envelope rules as the specification lists them\<close>

text \<open>Rules 1 to 6 of the envelope detector in their priority order, each a condition
  on temperature and pressure with the warning it gives, and the first rule that
  matches.\<close>

definition envelope_rules :: "((real \<Rightarrow> real \<Rightarrow> bool) \<times> string) list" where
  "envelope_rules =
     [(\<lambda>t p. t > 100 \<and> p < 1, WARNING_1),
      (\<lambda>t p. t < 0 \<and> p > 50, WARNING_2),
      (\<lambda>t p. p > 200 \<and> t > 400, WARNING_3),
      (\<lambda>t p. p < 1 / 10 \<and> t < - 50, WARNING_4),
      (\<lambda>t p. p > 200 \<and> t < 0, WARNING_5),
      (\<lambda>t p. p < 1 \<and> t > 400, WARNING_6)]"

definition first_match :: "real \<Rightarrow> real \<Rightarrow> string option" where
  "first_match t p = map_option snd (find (\<lambda>(c, w). c t p) envelope_rules)"

section \<open>Properties\<close>

subsection \<open>The strings are pairwise different\<close>

lemmas string_defs = GATE_VALVES_def BUTTERFLY_VALVES_def BALL_VALVES_def
  KNIFE_GATE_VALVES_def GLOBE_VALVES_def WEIR_DIAPHRAGM_VALVES_def NEEDLE_VALVES_def
  NEEDLE_VALVES_0728_def BUTTERFLY_VALVES_REG_def GLOBE_VALVES_REG_def
  KNIFE_GATE_V_DEFLECTOR_def SELECT_FUNCTION_PROMPT_def CAST_IRON_STEAM_WARNING_def
  BRASS_SIZE_WARNING_def BRASS_CHEMICAL_WARNING_def BRONZE_CHEMICAL_WARNING_def
  DUPLEX_SEA_WATER_NOTE_def SELECT_MATERIAL_PROMPT_def NO_MATERIAL_MATCH_def
  ELASTOMER_WARNING_def PTFE_NUCLEAR_WARNING_def STELLITE_NOTE_def NO_SEAL_MATCH_def
  WARNING_1_def WARNING_2_def WARNING_3_def WARNING_4_def WARNING_5_def WARNING_6_def
  NO_AI_RECOMMENDATIONS_def BACKEND_ERROR_def

lemma distinct_all_strings: "distinct all_strings"
  unfolding all_strings_def string_defs by simp

lemma distinct_rev_all_strings: "distinct (rev all_strings)"
  using distinct_all_strings by simp

lemmas string_neq =
  distinct_all_strings [unfolded all_strings_def, simplified]
  distinct_rev_all_strings [unfolded all_strings_def, simplified]

subsection \<open>The set of recommendations\<close>

lemma set_Set_add [simp]: "set (Set_add rs x) = insert x (set rs)"
  by (auto simp: Set_add_def)

lemma set_foldl_Set_add [simp]: "set (foldl Set_add rs xs) = set rs \<union> set xs"
  by (induction xs arbitrary: rs) auto

lemma recommend_fields [simp]:
  "recommendations (recommend x l) = Set_add (recommendations l) x"
  "suitable (recommend x l) = suitable l"
  "materialViable (recommend x l) = materialViable l"
  "sealViable (recommend x l) = sealViable l"
  by (simp_all add: recommend_def)

lemma recommend_all_fields [simp]:
  "recommendations (recommend_all xs l) = foldl Set_add (recommendations l) xs"
  "suitable (recommend_all xs l) = suitable l"
  "materialViable (recommend_all xs l) = materialViable l"
  "sealViable (recommend_all xs l) = sealViable l"
  by (simp_all add: recommend_all_def)

lemmas js_includes_eval = js_includes_def sublist_code(3)

lemmas script_defs = script_rules_def script_main_function_def script_body_material_def
  script_material_gate_def seal_surface_material_def initial_def

subsection \<open>What the later steps keep\<close>

lemma seal_switch_keeps:
  "materialViable (seal_switch f l) = materialViable l"
  "suitable (seal_switch f l) = suitable l"
  "set (recommendations l) \<subseteq> set (recommendations (seal_switch f l))"
  by (auto simp: seal_switch_def Let_def)

lemma seal_surface_material_keeps:
  "materialViable (seal_surface_material f l) = materialViable l"
  "set (recommendations l) \<subseteq> set (recommendations (seal_surface_material f l))"
  using seal_switch_keeps(3)[of "l\<lparr>sealViable := False\<rparr>" f]
  by (auto simp: seal_surface_material_def Let_def seal_switch_keeps)

lemma script_material_gate_keeps:
  "materialViable (script_material_gate l) = materialViable l"
  "set (recommendations l) \<subseteq> set (recommendations (script_material_gate l))"
  by (auto simp: script_material_gate_def)

lemma script_rules_materialViable:
  "materialViable (script_rules f) =
     materialViable (script_body_material f (script_main_function f initial))"
  by (simp add: script_rules_def seal_surface_material_keeps script_material_gate_keeps)

lemma script_rules_recommendations:
  "set (recommendations (script_body_material f (script_main_function f initial)))
    \<subseteq> set (recommendations (script_rules f))"
  unfolding script_rules_def
  using seal_surface_material_keeps(2) script_material_gate_keeps(2) by blast

subsection \<open>Cast iron\<close>

text \<open>
  C6. In script.js, for the body material \<open>cast_iron\<close>: when the fluid contains
  \<open>steam\<close> and the temperature is above 180 or the pressure above 10, the material is
  not viable and the steam-limit warning is in the recommendations; in every other case
  the material is viable exactly when the temperature is at most 184 and the pressure
  at most 16, both bounds included.
\<close>

theorem cast_iron_viability:
  assumes "bodyBonnetMaterial f = ''cast_iron''"
  shows "(js_includes (fluidType f) ''steam'' \<and> (temperature f > 180 \<or> pressure f > 10) \<longrightarrow>
            \<not> materialViable (script_rules f)
            \<and> CAST_IRON_STEAM_WARNING \<in> set (recommendations (script_rules f)))
       \<and> (\<not> (js_includes (fluidType f) ''steam''
              \<and> (temperature f > 180 \<or> pressure f > 10)) \<longrightarrow>
            materialViable (script_rules f) = (temperature f \<le> 184 \<and> pressure f \<le> 16))"
proof -
  let ?l = "script_body_material f (script_main_function f initial)"
  have sw: "?l = case_cast_iron f ((script_main_function f initial)\<lparr>materialViable := False\<rparr>)"
    using assms by (simp add: script_body_material_def)
  have "CAST_IRON_STEAM_WARNING \<in> set (recommendations ?l)"
    if "js_includes (fluidType f) ''steam'' \<and> (temperature f > 180 \<or> pressure f > 10)"
    using that by (simp add: sw case_cast_iron_def)
  then show ?thesis
    using script_rules_recommendations[of f]
    by (auto simp: script_rules_materialViable sw case_cast_iron_def)
qed

text \<open>At 184 degrees and 16 bar cast iron is viable, at 184.01 degrees it is not; with
  steam at 181 degrees and 5 bar it is not viable and the warning is given.\<close>

theorem cast_iron_viability_witness:
  "materialViable (script_rules (example ''on_off'' ''cast_iron'' 184 16 [] [] ''water''))
   \<and> \<not> materialViable
         (script_rules (example ''on_off'' ''cast_iron'' 184.01 16 [] [] ''water''))
   \<and> \<not> materialViable (script_rules (example ''on_off'' ''cast_iron'' 181 5 [] [] ''steam''))
   \<and> CAST_IRON_STEAM_WARNING
        \<in> set (recommendations
                 (script_rules (example ''on_off'' ''cast_iron'' 181 5 [] [] ''steam'')))"
  using cast_iron_viability [of "example ''on_off'' ''cast_iron'' 184 16 [] [] ''water''"]
    cast_iron_viability [of "example ''on_off'' ''cast_iron'' 184.01 16 [] [] ''water''"]
    cast_iron_viability [of "example ''on_off'' ''cast_iron'' 181 5 [] [] ''steam''"]
  by (simp add: example_def js_includes_eval)

subsection \<open>Brass and bronze with a corrosive fluid\<close>

text \<open>
  C1. The claim is that brass and bronze are never viable when the fluid contains
  \<open>corrosive\<close>, \<open>acid\<close> or \<open>ammonia\<close>. The brass case assigns
  \<open>materialViable = false\<close> and adds the warning, and the statement after it assigns
  \<open>materialViable = true\<close> again when the temperature is at most 100 and the pressure
  at most 64. Brass at 50 degrees and 20 bar with the fluid \<open>acid\<close>: the material is
  viable, the result is suitable, and the list shown contains the warning that brass is
  not suitable for acids.
\<close>

theorem brass_chemical_override_undone:
  "chemical (fluidType (example ''on_off'' ''brass'' 50 20 [] [] ''acid''))
   \<and> materialViable (script_rules (example ''on_off'' ''brass'' 50 20 [] [] ''acid''))
   \<and> suitable (script_rules (example ''on_off'' ''brass'' 50 20 [] [] ''acid''))
   \<and> BRASS_CHEMICAL_WARNING
        \<in> set (valveList (script_submit (example ''on_off'' ''brass'' 50 20 [] [] ''acid'')))"
  by (simp add: example_def script_defs script_submit_def script_display_def case_brass_def
      chemical_def js_includes_eval brass_diameter_test_def Let_def Set_add_def)

subsection \<open>The suitable flag\<close>

lemmas case_defs = case_cast_iron_def case_ductile_iron_def case_carbon_steel_def
  case_stainless_steel_def case_stainless_steel_310_def case_brass_def case_bronze_def
  case_duplex_super_duplex_def case_plastic_def

lemma cases_keep_suitable:
  "suitable (case_cast_iron f l) = suitable l"
  "suitable (case_ductile_iron f l) = suitable l"
  "suitable (case_carbon_steel f l) = suitable l"
  "suitable (case_stainless_steel f l) = suitable l"
  "suitable (case_stainless_steel_310 f l) = suitable l"
  "suitable (case_brass f l) = suitable l"
  "suitable (case_bronze f l) = suitable l"
  "suitable (case_duplex_super_duplex f l) = suitable l"
  "suitable (case_plastic f l) = suitable l"
  by (simp_all add: case_defs Let_def)

lemma script_main_function_suitable:
  "suitable (script_main_function f l) =
     (suitable l \<and> (mainFunction f = ''on_off'' \<or> mainFunction f = ''regulation''
        \<or> mainFunction f = ''on_off_regulation''))"
  by (simp add: script_main_function_def)

lemma snapshot_main_function_suitable:
  "suitable (snapshot_main_function f l) =
     (suitable l \<and> (mainFunction f = ''on_off'' \<or> mainFunction f = ''regulation''
        \<or> mainFunction f = ''on_off_regulation''))"
  by (simp add: snapshot_main_function_def)

lemma script_body_material_suitable:
  "suitable (script_body_material f l) = suitable l"
  by (simp add: script_body_material_def Let_def cases_keep_suitable)

lemma script_material_gate_suitable:
  "suitable (script_material_gate l) = (suitable l \<and> materialViable l)"
  by (simp add: script_material_gate_def)

lemma snapshot_material_suitable:
  "suitable (snapshot_material_gate f (snapshot_body_material f l)) =
     (suitable l \<and> materialViable (snapshot_body_material f l))"
  by (simp add: snapshot_material_gate_def snapshot_body_material_def Let_def
      cases_keep_suitable)

lemma snapshot_material_gate_materialViable:
  "materialViable (snapshot_material_gate f l) = materialViable l"
  by (simp add: snapshot_material_gate_def)

lemma seal_surface_material_suitable:
  "suitable (seal_surface_material f l) =
     (suitable l \<and> (sealSurfaceMaterial f = [] \<or> sealViable (seal_surface_material f l)))"
  by (simp add: seal_surface_material_def Let_def seal_switch_keeps)

lemma script_rules_suitable:
  "suitable (script_rules f) =
     ((mainFunction f = ''on_off'' \<or> mainFunction f = ''regulation''
         \<or> mainFunction f = ''on_off_regulation'')
      \<and> materialViable (script_rules f)
      \<and> (sealSurfaceMaterial f = [] \<or> sealViable (script_rules f)))"
  unfolding script_rules_def
  by (subst seal_surface_material_suitable)
    (simp add: script_material_gate_suitable script_body_material_suitable
      script_main_function_suitable seal_surface_material_keeps
      script_material_gate_keeps initial_def conj_ac)

lemma snapshot_rules_suitable:
  "suitable (snapshot_rules f) =
     ((mainFunction f = ''on_off'' \<or> mainFunction f = ''regulation''
         \<or> mainFunction f = ''on_off_regulation'')
      \<and> materialViable (snapshot_rules f)
      \<and> (sealSurfaceMaterial f = [] \<or> sealViable (snapshot_rules f)))"
  unfolding snapshot_rules_def
  by (subst seal_surface_material_suitable)
    (simp add: snapshot_material_suitable snapshot_main_function_suitable
      seal_surface_material_keeps snapshot_material_gate_materialViable initial_def
      conj_ac)

text \<open>
  C3. In script.js and in the synchronous handler of the snapshot, the final value of
  \<open>suitable\<close> is the conjunction of three conditions and of nothing else: the main
  function is one of the three known ones, \<open>materialViable\<close> holds after the body
  material switch, and the seal is unselected or \<open>sealViable\<close> holds after the seal
  switch.
\<close>

theorem suitable_is_conjunction:
  "suitable (script_rules f) =
     ((mainFunction f = ''on_off'' \<or> mainFunction f = ''regulation''
         \<or> mainFunction f = ''on_off_regulation'')
      \<and> materialViable (script_rules f)
      \<and> (sealSurfaceMaterial f = [] \<or> sealViable (script_rules f)))
   \<and> suitable (snapshot_rules f) =
     ((mainFunction f = ''on_off'' \<or> mainFunction f = ''regulation''
         \<or> mainFunction f = ''on_off_regulation'')
      \<and> materialViable (snapshot_rules f)
      \<and> (sealSurfaceMaterial f = [] \<or> sealViable (snapshot_rules f)))"
  using script_rules_suitable [of f] snapshot_rules_suitable [of f] by (rule conjI)

lemmas snapshot_defs = snapshot_rules_def snapshot_main_function_def
  snapshot_body_material_def snapshot_material_gate_def seal_surface_material_def
  initial_def

text \<open>Carbon steel at 200 degrees and 40 bar for on/off service without a seal is
  suitable in both handlers; plastic at 100 degrees, an unset function, and a rubber
  seal at 200 degrees each make the result unsuitable.\<close>

theorem suitable_is_conjunction_witness:
  "suitable (script_rules (example ''on_off'' ''carbon_steel'' 200 40 [] [] []))
   \<and> suitable (snapshot_rules (example ''on_off'' ''carbon_steel'' 200 40 [] [] []))
   \<and> \<not> suitable (script_rules (example ''on_off'' ''plastic'' 100 1 [] [] []))
   \<and> \<not> suitable (snapshot_rules (example [] ''stainless_steel'' 100 50 [] [] []))
   \<and> \<not> suitable
         (script_rules (example ''regulation'' ''carbon_steel'' 200 40 ''rubber_seal'' [] []))"
  using suitable_is_conjunction [of "example ''on_off'' ''carbon_steel'' 200 40 [] [] []"]
    suitable_is_conjunction [of "example ''on_off'' ''plastic'' 100 1 [] [] []"]
    suitable_is_conjunction [of "example [] ''stainless_steel'' 100 50 [] [] []"]
    suitable_is_conjunction
      [of "example ''regulation'' ''carbon_steel'' 200 40 ''rubber_seal'' [] []"]
  by (simp add: example_def script_defs snapshot_defs case_defs seal_switch_def Let_def)

subsection \<open>Stainless steel 310\<close>

lemma snapshot_rules_materialViable:
  "materialViable (snapshot_rules f) =
     materialViable (snapshot_body_material f (snapshot_main_function f initial))"
  by (simp add: snapshot_rules_def seal_surface_material_keeps
      snapshot_material_gate_materialViable)

text \<open>In script.js the 310 grade has its own case, with the limit of 550 degrees.\<close>

lemma script_stainless_steel_310_viability:
  assumes "bodyBonnetMaterial f = ''stainless_steel_310''"
  shows "materialViable (script_rules f) =
     (- 200 \<le> temperature f \<and> temperature f \<le> 550 \<and> pressure f \<le> 400)"
  using assms
  by (simp add: script_rules_materialViable script_body_material_def Let_def
      case_stainless_steel_310_def)

text \<open>In the snapshot the 310 grade shares the statement of \<open>stainless_steel\<close>, with
  the limit of 420 degrees.\<close>

lemma snapshot_stainless_steel_310_viability:
  assumes "bodyBonnetMaterial f = ''stainless_steel_310''"
  shows "materialViable (snapshot_rules f) =
     (- 200 \<le> temperature f \<and> temperature f \<le> 420 \<and> pressure f \<le> 400)"
  using assms
  by (simp add: snapshot_rules_materialViable snapshot_body_material_def Let_def
      case_stainless_steel_def)

text \<open>
  C4. The claim is that \<open>stainless_steel_310\<close> is viable exactly from -200 to 550
  degrees up to 400 bar. script.js does that. In the snapshot the case label of the 310
  grade falls through to the test of the 304-316 grades: at 500 degrees and 100 bar the
  snapshot finds the material not viable, the result unsuitable and shows no valve,
  where script.js finds it viable and suitable.
\<close>

theorem snapshot_stainless_steel_310_at_500:
  "\<not> materialViable
       (snapshot_rules (example ''on_off'' ''stainless_steel_310'' 500 100 [] [] []))
   \<and> \<not> suitable
         (snapshot_rules (example ''on_off'' ''stainless_steel_310'' 500 100 [] [] []))
   \<and> valveList
        (snapshot_submit (example ''on_off'' ''stainless_steel_310'' 500 100 [] [] [])) = []
   \<and> materialViable
        (script_rules (example ''on_off'' ''stainless_steel_310'' 500 100 [] [] []))
   \<and> suitable (script_rules (example ''on_off'' ''stainless_steel_310'' 500 100 [] [] []))"
  by (simp add: example_def script_defs snapshot_defs snapshot_submit_def
      snapshot_display_def case_defs Let_def)

subsection \<open>Where a recommendation can come from\<close>

lemma script_main_function_recommendations:
  "set (recommendations (script_main_function f initial))
     \<subseteq> {GATE_VALVES, BUTTERFLY_VALVES, BALL_VALVES, KNIFE_GATE_VALVES, GLOBE_VALVES,
         WEIR_DIAPHRAGM_VALVES, NEEDLE_VALVES, BUTTERFLY_VALVES_REG, GLOBE_VALVES_REG,
         KNIFE_GATE_V_DEFLECTOR}"
  by (auto simp: script_main_function_def initial_def)

lemma seal_surface_material_recommendations:
  "set (recommendations (seal_surface_material f l))
     \<subseteq> set (recommendations l)
         \<union> {ELASTOMER_WARNING, PTFE_NUCLEAR_WARNING, STELLITE_NOTE, NO_SEAL_MATCH}"
  by (auto simp: seal_surface_material_def seal_switch_def Let_def)

lemma script_material_gate_recommendations:
  "set (recommendations (script_material_gate l))
     \<subseteq> set (recommendations l) \<union> {NO_MATERIAL_MATCH}"
  by (auto simp: script_material_gate_def)

text \<open>Each recommendation of script.js is there after the body material switch or is
  one of the five strings that the material gate and the seal block add.\<close>

lemma script_rules_recommendations_upper:
  "set (recommendations (script_rules f))
     \<subseteq> set (recommendations (script_body_material f (script_main_function f initial)))
         \<union> {NO_MATERIAL_MATCH, ELASTOMER_WARNING, PTFE_NUCLEAR_WARNING, STELLITE_NOTE,
             NO_SEAL_MATCH}"
  unfolding script_rules_def
  using seal_surface_material_recommendations script_material_gate_recommendations
  by blast

subsection \<open>Duplex and super duplex\<close>

text \<open>
  C9 as amended. In script.js the body material \<open>duplex_super_duplex\<close> is viable for
  every temperature, pressure, fluid and diameter, and the note that recommends it for
  sea water is in the recommendations exactly when the fluid contains \<open>sea water\<close>,
  written with a blank as the form writes it.
\<close>

theorem duplex_super_duplex_viability:
  assumes "bodyBonnetMaterial f = ''duplex_super_duplex''"
  shows "materialViable (script_rules f)
     \<and> (DUPLEX_SEA_WATER_NOTE \<in> set (recommendations (script_rules f))
          \<longleftrightarrow> js_includes (fluidType f) ''sea water'')"
proof -
  let ?l = "script_body_material f (script_main_function f initial)"
  have sw: "?l = case_duplex_super_duplex f
      ((script_main_function f initial)\<lparr>materialViable := False\<rparr>)"
    using assms by (simp add: script_body_material_def)
  have viable: "materialViable (script_rules f)"
    by (simp add: script_rules_materialViable sw case_duplex_super_duplex_def)
  have body: "set (recommendations ?l) =
      set (recommendations (script_main_function f initial))
        \<union> (if js_includes (fluidType f) ''sea water'' then {DUPLEX_SEA_WATER_NOTE} else {})"
    by (simp add: sw case_duplex_super_duplex_def)
  have main: "DUPLEX_SEA_WATER_NOTE \<notin> set (recommendations (script_main_function f initial))"
    using script_main_function_recommendations [of f] by (auto simp: string_neq)
  have "DUPLEX_SEA_WATER_NOTE \<in> set (recommendations (script_rules f))"
    if "js_includes (fluidType f) ''sea water''"
    using that script_rules_recommendations [of f] body by auto
  moreover have "js_includes (fluidType f) ''sea water''"
    if "DUPLEX_SEA_WATER_NOTE \<in> set (recommendations (script_rules f))"
  proof (rule ccontr)
    assume "\<not> js_includes (fluidType f) ''sea water''"
    with body main have "DUPLEX_SEA_WATER_NOTE \<notin> set (recommendations ?l)" by simp
    with that script_rules_recommendations_upper [of f] show False
      by (auto simp: string_neq)
  qed
  ultimately show ?thesis using viable by blast
qed

text \<open>Duplex at 900 degrees and 900 bar with the fluid \<open>sea water\<close>: viable, with the
  note.\<close>

theorem duplex_super_duplex_viability_witness:
  "materialViable
     (script_rules (example ''on_off'' ''duplex_super_duplex'' 900 900 [] [] ''sea water''))
   \<and> DUPLEX_SEA_WATER_NOTE \<in> set (recommendations
        (script_rules
           (example ''on_off'' ''duplex_super_duplex'' 900 900 [] [] ''sea water'')))"
  using duplex_super_duplex_viability
    [of "example ''on_off'' ''duplex_super_duplex'' 900 900 [] [] ''sea water''"]
  by (simp add: example_def js_includes_eval)

text \<open>The claim names the keyword \<open>sea_water\<close>. A fluid \<open>sea_water\<close> contains that
  keyword and gets no note.\<close>

theorem duplex_sea_water_underscore_counterexample:
  "js_includes ''sea_water'' ''sea_water''
   \<and> DUPLEX_SEA_WATER_NOTE \<notin> set (recommendations
        (script_rules (example ''on_off'' ''duplex_super_duplex'' 20 5 [] [] ''sea_water'')))"
  by (simp add: example_def script_defs case_defs js_includes_eval Let_def string_neq)

subsection \<open>An unset body material\<close>




subsection \<open>Families and display\<close>

text \<open>Every step appends to the recommendations.\<close>

lemma prefix_Set_add: "prefix rs rs' \<Longrightarrow> prefix rs (Set_add rs' x)"
  by (simp add: Set_add_def)

lemma prefix_foldl_Set_add: "prefix rs rs' \<Longrightarrow> prefix rs (foldl Set_add rs' xs)"
  by (induction xs arbitrary: rs') (simp_all add: prefix_Set_add)

lemma prefix_cases:
  "prefix rs (recommendations l) \<Longrightarrow> prefix rs (recommendations (case_cast_iron f l))"
  "prefix rs (recommendations l) \<Longrightarrow> prefix rs (recommendations (case_ductile_iron f l))"
  "prefix rs (recommendations l) \<Longrightarrow> prefix rs (recommendations (case_carbon_steel f l))"
  "prefix rs (recommendations l) \<Longrightarrow> prefix rs (recommendations (case_stainless_steel f l))"
  "prefix rs (recommendations l) \<Longrightarrow>
     prefix rs (recommendations (case_stainless_steel_310 f l))"
  "prefix rs (recommendations l) \<Longrightarrow> prefix rs (recommendations (case_brass f l))"
  "prefix rs (recommendations l) \<Longrightarrow> prefix rs (recommendations (case_bronze f l))"
  "prefix rs (recommendations l) \<Longrightarrow>
     prefix rs (recommendations (case_duplex_super_duplex f l))"
  "prefix rs (recommendations l) \<Longrightarrow> prefix rs (recommendations (case_plastic f l))"
  by (simp_all add: case_defs Let_def prefix_Set_add)

lemma prefix_script_body_material:
  "prefix rs (recommendations l) \<Longrightarrow>
     prefix rs (recommendations (script_body_material f l))"
  by (simp add: script_body_material_def Let_def prefix_cases)

lemma prefix_seal_switch:
  "prefix rs (recommendations l) \<Longrightarrow> prefix rs (recommendations (seal_switch f l))"
  by (simp add: seal_switch_def Let_def prefix_Set_add)

lemma prefix_seal_surface_material:
  "prefix rs (recommendations l) \<Longrightarrow>
     prefix rs (recommendations (seal_surface_material f l))"
  by (simp add: seal_surface_material_def Let_def prefix_Set_add prefix_seal_switch)

lemma prefix_script_material_gate:
  "prefix rs (recommendations l) \<Longrightarrow>
     prefix rs (recommendations (script_material_gate l))"
  by (simp add: script_material_gate_def prefix_Set_add)

lemma prefix_script_rules:
  "prefix (recommendations (script_main_function f initial)) (recommendations (script_rules f))"
  unfolding script_rules_def
  by (intro prefix_seal_surface_material prefix_script_material_gate
      prefix_script_body_material prefix_order.refl)

text \<open>
  C7 as amended. In script.js, when the main function is one of the three known ones,
  the recommendations start with the fixed list of families of that function, in order,
  whether the result is suitable or not. The page lists the recommendations only when
  the result is suitable; when it is not, the page lists nothing and shows the
  no-results message.
\<close>

theorem families_collected_shown_when_suitable:
  "(mainFunction f = ''on_off'' \<longrightarrow>
      prefix [GATE_VALVES, BUTTERFLY_VALVES, BALL_VALVES, KNIFE_GATE_VALVES]
        (recommendations (script_rules f)))
   \<and> (mainFunction f = ''regulation'' \<longrightarrow>
      prefix [GLOBE_VALVES, WEIR_DIAPHRAGM_VALVES, NEEDLE_VALVES]
        (recommendations (script_rules f)))
   \<and> (mainFunction f = ''on_off_regulation'' \<longrightarrow>
      prefix [WEIR_DIAPHRAGM_VALVES, BUTTERFLY_VALVES_REG, GLOBE_VALVES_REG,
          KNIFE_GATE_V_DEFLECTOR]
        (recommendations (script_rules f)))
   \<and> (suitable (script_rules f) \<longrightarrow>
        valveList (script_submit f) = recommendations (script_rules f))
   \<and> ((mainFunction f = ''on_off'' \<or> mainFunction f = ''regulation''
          \<or> mainFunction f = ''on_off_regulation'') \<and> \<not> suitable (script_rules f) \<longrightarrow>
        valveList (script_submit f) = [] \<and> noResultsShown (script_submit f))"
proof -
  let ?rs = "recommendations (script_rules f)"
  have a: "prefix [GATE_VALVES, BUTTERFLY_VALVES, BALL_VALVES, KNIFE_GATE_VALVES] ?rs"
    if "mainFunction f = ''on_off''"
    using prefix_script_rules [of f] that
    by (simp add: script_main_function_def initial_def Set_add_def string_neq)
  have b: "prefix [GLOBE_VALVES, WEIR_DIAPHRAGM_VALVES, NEEDLE_VALVES] ?rs"
    if "mainFunction f = ''regulation''"
    using prefix_script_rules [of f] that
    by (simp add: script_main_function_def initial_def Set_add_def string_neq)
  have c: "prefix [WEIR_DIAPHRAGM_VALVES, BUTTERFLY_VALVES_REG, GLOBE_VALVES_REG,
          KNIFE_GATE_V_DEFLECTOR] ?rs"
    if "mainFunction f = ''on_off_regulation''"
    using prefix_script_rules [of f] that
    by (simp add: script_main_function_def initial_def Set_add_def string_neq)
  have len: "3 \<le> length ?rs"
    if "mainFunction f = ''on_off'' \<or> mainFunction f = ''regulation''
          \<or> mainFunction f = ''on_off_regulation''"
  proof -
    have "length xs \<le> length ?rs" if "prefix xs ?rs" for xs
      using that by (rule prefix_length_le)
    from this [of "[GATE_VALVES, BUTTERFLY_VALVES, BALL_VALVES, KNIFE_GATE_VALVES]"]
      this [of "[GLOBE_VALVES, WEIR_DIAPHRAGM_VALVES, NEEDLE_VALVES]"]
      this [of "[WEIR_DIAPHRAGM_VALVES, BUTTERFLY_VALVES_REG, GLOBE_VALVES_REG,
          KNIFE_GATE_V_DEFLECTOR]"] that a b c
    show ?thesis by auto
  qed
  have d: "valveList (script_submit f) = ?rs" if "suitable (script_rules f)"
  proof -
    from that script_rules_suitable [of f]
    have "mainFunction f = ''on_off'' \<or> mainFunction f = ''regulation''
          \<or> mainFunction f = ''on_off_regulation''" by simp
    then have "3 \<le> length ?rs" by (rule len)
    with that show ?thesis by (simp add: script_submit_def script_display_def Let_def)
  qed
  have e: "valveList (script_submit f) = [] \<and> noResultsShown (script_submit f)"
    if "(mainFunction f = ''on_off'' \<or> mainFunction f = ''regulation''
          \<or> mainFunction f = ''on_off_regulation'') \<and> \<not> suitable (script_rules f)"
  proof -
    from that have "3 \<le> length ?rs" using len by blast
    with that show ?thesis by (simp add: script_submit_def script_display_def Let_def)
  qed
  from a b c d e show ?thesis by blast
qed

text \<open>Regulation with brass at 150 degrees: the three families are collected and
  nothing is listed. On/off with carbon steel at 200 degrees: the list is shown.\<close>

theorem families_collected_shown_when_suitable_witness:
  "prefix [GLOBE_VALVES, WEIR_DIAPHRAGM_VALVES, NEEDLE_VALVES]
     (recommendations (script_rules (example ''regulation'' ''brass'' 150 20 [] ''dn150'' [])))
   \<and> valveList (script_submit (example ''regulation'' ''brass'' 150 20 [] ''dn150'' [])) = []
   \<and> valveList (script_submit (example ''on_off'' ''carbon_steel'' 200 40 [] [] []))
       = recommendations (script_rules (example ''on_off'' ''carbon_steel'' 200 40 [] [] []))"
  using families_collected_shown_when_suitable
      [of "example ''regulation'' ''brass'' 150 20 [] ''dn150'' []"]
    families_collected_shown_when_suitable
      [of "example ''on_off'' ''carbon_steel'' 200 40 [] [] []"]
  by (simp add: example_def script_defs case_defs Let_def)

text \<open>On/off with plastic at 100 degrees: a function is selected, the result is not
  suitable, and the list on the page is empty.\<close>

theorem families_not_shown_counterexample:
  "\<not> suitable (script_rules (example ''on_off'' ''plastic'' 100 1 [] [] []))
   \<and> valveList (script_submit (example ''on_off'' ''plastic'' 100 1 [] [] [])) = []
   \<and> noResultsShown (script_submit (example ''on_off'' ''plastic'' 100 1 [] [] []))"
  by (simp add: example_def script_defs script_submit_def script_display_def case_defs
      Let_def Set_add_def string_neq)

subsection \<open>The envelope checks\<close>

lemmas threshold_defs = HIGH_TEMP_THRESHOLD_def LOW_PRESSURE_THRESHOLD_def
  VERY_LOW_TEMP_THRESHOLD_def HIGH_PRESSURE_THRESHOLD_def EXTREME_HIGH_TEMP_THRESHOLD_def
  EXTREME_HIGH_PRESSURE_THRESHOLD_def EXTREME_LOW_TEMP_THRESHOLD_def
  VACUUM_PRESSURE_THRESHOLD_def

lemma envelope_checks_recommendations:
  "recommendations (envelope_checks t p l) =
     (case first_match t p of None \<Rightarrow> recommendations l
      | Some w \<Rightarrow> Set_add (recommendations l) w)"
  by (simp add: envelope_checks_def first_match_def envelope_rules_def threshold_defs)

lemma envelope_checks_suitable:
  "suitable (envelope_checks t p l) = (suitable l \<and> first_match t p = None)"
  by (simp add: envelope_checks_def first_match_def envelope_rules_def threshold_defs)

text \<open>
  C5. The envelope checks add at most one warning: the warning of the first of the six
  rules, in their order, whose condition holds, and nothing when none holds. At 450
  degrees and 250 bar the warning of rule 3 is added and the warning of rule 6 is not.
\<close>

theorem envelope_first_match:
  "recommendations (envelope_checks t p l) =
     (case first_match t p of None \<Rightarrow> recommendations l
      | Some w \<Rightarrow> Set_add (recommendations l) w)
   \<and> length (recommendations (envelope_checks t p initial)) \<le> 1
   \<and> recommendations (envelope_checks 450 250 initial) = [WARNING_3]
   \<and> WARNING_6 \<notin> set (recommendations (envelope_checks 450 250 initial))"
proof -
  have "length (recommendations (envelope_checks t p initial)) \<le> 1"
    by (simp add: envelope_checks_recommendations initial_def Set_add_def
        split: option.split)
  moreover have "first_match 450 250 = Some WARNING_3"
    by (simp add: first_match_def envelope_rules_def)
  then have "recommendations (envelope_checks 450 250 initial) = [WARNING_3]"
    by (simp add: envelope_checks_recommendations initial_def Set_add_def)
  ultimately show ?thesis
    by (simp add: envelope_checks_recommendations string_neq)
qed

text \<open>At 450 degrees and 250 bar rule 3 gives its warning; at 500 degrees and half a
  bar rule 1 does, being the first that matches; at 20 degrees and 5 bar no rule matches.\<close>

theorem envelope_first_match_witness:
  "recommendations (envelope_checks 450 250 initial) = [WARNING_3]
   \<and> recommendations (envelope_checks 500 (1/2) initial) = [WARNING_1]
   \<and> recommendations (envelope_checks 20 5 initial) = []"
  using envelope_first_match [where t = 450 and p = 250 and l = initial]
    envelope_first_match [where t = 500 and p = "1/2" and l = initial]
    envelope_first_match [where t = 20 and p = 5 and l = initial]
  by (simp add: first_match_def envelope_rules_def initial_def Set_add_def)

text \<open>Rule 2 holds wherever rule 5 does, and rule 1 wherever rule 6 does.\<close>

lemma warnings_5_and_6_never_given:
  "first_match t p \<noteq> Some WARNING_5" "first_match t p \<noteq> Some WARNING_6"
  by (auto simp: first_match_def envelope_rules_def string_neq)

lemma ai_rules_suitable:
  "suitable (ai_rules f r) =
     (case r of Service_error \<Rightarrow> False
      | Service_data recs not_suitable \<Rightarrow> recs \<noteq> [] \<and> \<not> not_suitable)"
  by (simp add: ai_rules_def service_step_def split: service_outcome.split)

text \<open>The service step assigns \<open>suitable\<close> on every path and reads it on none.\<close>

lemma service_step_ignores_suitable:
  "service_step r (l\<lparr>suitable := b\<rparr>) = service_step r l"
  by (cases r) (simp_all add: service_step_def recommend_def recommend_all_def)

lemma envelope_checks_initial:
  "envelope_checks t p initial =
     initial\<lparr>recommendations := (case first_match t p of None \<Rightarrow> [] | Some w \<Rightarrow> [w]),
       suitable := (first_match t p = None)\<rparr>"
  by (simp add: envelope_checks_def first_match_def envelope_rules_def threshold_defs
      initial_def recommend_def Set_add_def)

lemma prefix_service_step:
  "prefix (recommendations l) (recommendations (service_step r l))"
  by (cases r) (simp_all add: service_step_def prefix_Set_add prefix_foldl_Set_add)

text \<open>
  C2. In the asynchronous handler the envelope checks contribute only warnings to the
  result. For every temperature and pressure the variables at the end are those that
  the service step gives when it starts from the initial variables with the envelope
  warning, if one was given, as the only recommendation; the final \<open>suitable\<close> is the
  one of the handler without the checks; and what the checks added stays at the head of
  the recommendations. (Each branch of the checks also assigns \<open>suitable = false\<close>:
  lemma \<open>envelope_checks_suitable\<close>. Every path after the checks assigns \<open>suitable\<close>
  again before it is read.)
\<close>

theorem envelope_contributes_only_warnings:
  "ai_rules f r =
     service_step r
       (initial\<lparr>recommendations :=
          (case first_match (temperature f) (pressure f) of None \<Rightarrow> []
           | Some w \<Rightarrow> [w])\<rparr>)
   \<and> suitable (ai_rules f r) = suitable (service_step r initial)
   \<and> prefix (recommendations (envelope_checks (temperature f) (pressure f) initial))
        (recommendations (ai_rules f r))"
proof (intro conjI)
  show 1: "ai_rules f r =
     service_step r
       (initial\<lparr>recommendations :=
          (case first_match (temperature f) (pressure f) of None \<Rightarrow> []
           | Some w \<Rightarrow> [w])\<rparr>)"
    unfolding ai_rules_def envelope_checks_initial
    by (rule service_step_ignores_suitable)
  show "suitable (ai_rules f r) = suitable (service_step r initial)"
    unfolding 1 by (cases r) (simp_all add: service_step_def)
  show "prefix (recommendations (envelope_checks (temperature f) (pressure f) initial))
        (recommendations (ai_rules f r))"
    unfolding ai_rules_def by (rule prefix_service_step)
qed

text \<open>At 150 degrees and 0 bar rule 1 matches. With an answer that holds one
  recommendation and does not deny suitability, the result is suitable and lists the
  warning, then the recommendation; with a failed request it is not suitable and lists
  the warning, then the error message.\<close>

theorem envelope_contributes_only_warnings_witness:
  "suitable (ai_rules (example ''on_off'' ''carbon_steel'' 150 0 [] [] [])
      (Service_data [''Globe valve''] False))
   \<and> recommendations (ai_rules (example ''on_off'' ''carbon_steel'' 150 0 [] [] [])
        (Service_data [''Globe valve''] False)) = [WARNING_1, ''Globe valve'']
   \<and> \<not> suitable (ai_rules (example ''on_off'' ''carbon_steel'' 150 0 [] [] [])
        Service_error)
   \<and> recommendations (ai_rules (example ''on_off'' ''carbon_steel'' 150 0 [] [] [])
        Service_error) = [WARNING_1, BACKEND_ERROR]"
proof -
  let ?f = "example ''on_off'' ''carbon_steel'' 150 0 [] [] []"
  have fm: "first_match (temperature ?f) (pressure ?f) = Some WARNING_1"
    by (simp add: example_def first_match_def envelope_rules_def)
  have d: "ai_rules ?f (Service_data [''Globe valve''] False) =
      service_step (Service_data [''Globe valve''] False)
        (initial\<lparr>recommendations := [WARNING_1]\<rparr>)"
    using envelope_contributes_only_warnings [of ?f "Service_data [''Globe valve''] False"]
    by (simp add: fm)
  have e: "ai_rules ?f Service_error =
      service_step Service_error (initial\<lparr>recommendations := [WARNING_1]\<rparr>)"
    using envelope_contributes_only_warnings [of ?f Service_error]
    by (simp add: fm)
  have "suitable (ai_rules ?f (Service_data [''Globe valve''] False))"
    "recommendations (ai_rules ?f (Service_data [''Globe valve''] False))
       = [WARNING_1, ''Globe valve'']"
    unfolding d
    by (simp_all add: service_step_def initial_def recommend_all_def Set_add_def
        WARNING_1_def)
  moreover have "\<not> suitable (ai_rules ?f Service_error)"
    "recommendations (ai_rules ?f Service_error) = [WARNING_1, BACKEND_ERROR]"
    unfolding e
    by (simp_all add: service_step_def initial_def recommend_def Set_add_def string_neq)
  ultimately show ?thesis by blast
qed

subsection \<open>The diameter of the brass case\<close>

lemma not_is_digit_dot: "\<not> is_digit CHR ''.''"
  by (simp add: is_digit_def)

lemma takeWhile_is_digit_dots:
  assumes "\<forall>c \<in> set s. c = CHR ''.''"
  shows "takeWhile is_digit s = []"
  using assms by (cases s) (simp_all add: not_is_digit_dot)

lemma parseFloat_dots:
  assumes "\<forall>c \<in> set s. c = CHR ''.''"
  shows "parseFloat s = None"
proof (cases s)
  case Nil
  then show ?thesis by (simp add: parseFloat_def)
next
  case (Cons c cs)
  with assms have c: "c = CHR ''.''" and cs: "\<forall>c \<in> set cs. c = CHR ''.''" by simp_all
  from cs have "takeWhile is_digit cs = []" by (rule takeWhile_is_digit_dots)
  with Cons c show ?thesis
    by (simp add: parseFloat_def not_is_digit_dot)
qed

lemma digits_and_dots_without_digit:
  assumes "\<forall>c \<in> set d. \<not> is_digit c"
  shows "\<forall>c \<in> set (digits_and_dots d). c = CHR ''.''"
  using assms by (auto simp: digits_and_dots_def)

lemma includes_dn100_has_digit:
  assumes "js_includes d ''dn100''"
  shows "\<exists>c \<in> set d. is_digit c"
proof -
  from assms obtain ps ss where "d = ps @ ''dn100'' @ ss"
    by (auto simp: js_includes_def sublist_def)
  then have "CHR ''1'' \<in> set d" by simp
  moreover have "is_digit CHR ''1''" by (simp add: is_digit_def)
  ultimately show ?thesis by blast
qed

lemma brass_diameter_test_without_digit:
  assumes "\<forall>c \<in> set d. \<not> is_digit c"
  shows "\<not> brass_diameter_test d"
  using assms includes_dn100_has_digit [of d]
    parseFloat_dots [OF digits_and_dots_without_digit [OF assms]]
  by (auto simp: brass_diameter_test_def gt_100_def)

lemma brass_diameter_test_empty: "\<not> brass_diameter_test []"
  by (simp add: brass_diameter_test_def js_includes_eval)

lemma brass_diameter_test_only_when:
  assumes "brass_diameter_test d"
  shows "js_includes d ''dn100''
     \<or> (\<exists>v. parseFloat (digits_and_dots d) = Some v \<and> v > 100)"
proof (cases "js_includes d ''dn100''")
  case True
  then show ?thesis by simp
next
  case False
  with assms have "gt_100 (parseFloat (digits_and_dots d))"
    by (simp add: brass_diameter_test_def)
  then obtain v where v: "parseFloat (digits_and_dots d) = Some v" "v > 100 + 1 / 2 ^ 47"
    by (auto simp: gt_100_def split: option.splits)
  have "(0::real) < 1 / 2 ^ 47" by simp
  with v(2) have "v > 100" by linarith
  with v(1) show ?thesis by blast
qed

text \<open>The size warning is in the set exactly for brass with a diameter that passes the
  test.\<close>

lemma size_warning_cases:
  "BRASS_SIZE_WARNING \<in> set (recommendations (case_cast_iron f l))
     \<longleftrightarrow> BRASS_SIZE_WARNING \<in> set (recommendations l)"
  "BRASS_SIZE_WARNING \<in> set (recommendations (case_ductile_iron f l))
     \<longleftrightarrow> BRASS_SIZE_WARNING \<in> set (recommendations l)"
  "BRASS_SIZE_WARNING \<in> set (recommendations (case_carbon_steel f l))
     \<longleftrightarrow> BRASS_SIZE_WARNING \<in> set (recommendations l)"
  "BRASS_SIZE_WARNING \<in> set (recommendations (case_stainless_steel f l))
     \<longleftrightarrow> BRASS_SIZE_WARNING \<in> set (recommendations l)"
  "BRASS_SIZE_WARNING \<in> set (recommendations (case_stainless_steel_310 f l))
     \<longleftrightarrow> BRASS_SIZE_WARNING \<in> set (recommendations l)"
  "BRASS_SIZE_WARNING \<in> set (recommendations (case_brass f l))
     \<longleftrightarrow> brass_diameter_test (nominalDiameter f)
       \<or> BRASS_SIZE_WARNING \<in> set (recommendations l)"
  "BRASS_SIZE_WARNING \<in> set (recommendations (case_bronze f l))
     \<longleftrightarrow> BRASS_SIZE_WARNING \<in> set (recommendations l)"
  "BRASS_SIZE_WARNING \<in> set (recommendations (case_duplex_super_duplex f l))
     \<longleftrightarrow> BRASS_SIZE_WARNING \<in> set (recommendations l)"
  "BRASS_SIZE_WARNING \<in> set (recommendations (case_plastic f l))
     \<longleftrightarrow> BRASS_SIZE_WARNING \<in> set (recommendations l)"
  by (simp_all add: case_defs Let_def string_neq)

lemma size_warning_in_body:
  "BRASS_SIZE_WARNING
     \<in> set (recommendations (script_body_material f (script_main_function f initial)))
   \<longleftrightarrow> bodyBonnetMaterial f = ''brass'' \<and> brass_diameter_test (nominalDiameter f)"
proof -
  have "BRASS_SIZE_WARNING \<notin> set (recommendations (script_main_function f initial))"
    using script_main_function_recommendations [of f] by (auto simp: string_neq)
  then show ?thesis
    by (simp add: script_body_material_def Let_def size_warning_cases)
qed

lemma size_warning_in_rules:
  "BRASS_SIZE_WARNING \<in> set (recommendations (script_rules f))
   \<longleftrightarrow> bodyBonnetMaterial f = ''brass'' \<and> brass_diameter_test (nominalDiameter f)"
  using script_rules_recommendations [of f] script_rules_recommendations_upper [of f]
    size_warning_in_body [of f]
  by (auto simp: string_neq)

text \<open>The diameter reaches the rules only through the test.\<close>

lemma script_rules_diameter:
  assumes "brass_diameter_test (nominalDiameter f) = brass_diameter_test d"
  shows "script_rules f = script_rules (f\<lparr>nominalDiameter := d\<rparr>)"
proof -
  let ?f = "f\<lparr>nominalDiameter := d\<rparr>"
  have main: "script_main_function ?f l = script_main_function f l" for l
    by (simp add: script_main_function_def cong: if_cong)
  have brass: "case_brass ?f l = case_brass f l" for l
    using assms by (simp add: case_brass_def cong: if_cong)
  have others: "case_cast_iron ?f l = case_cast_iron f l"
    "case_ductile_iron ?f l = case_ductile_iron f l"
    "case_carbon_steel ?f l = case_carbon_steel f l"
    "case_stainless_steel ?f l = case_stainless_steel f l"
    "case_stainless_steel_310 ?f l = case_stainless_steel_310 f l"
    "case_bronze ?f l = case_bronze f l"
    "case_duplex_super_duplex ?f l = case_duplex_super_duplex f l"
    "case_plastic ?f l = case_plastic f l" for l
    unfolding case_defs by (simp_all cong: if_cong)
  have body: "script_body_material ?f l = script_body_material f l" for l
    by (simp add: script_body_material_def brass others cong: if_cong)
  have seal: "seal_surface_material ?f l = seal_surface_material f l" for l
    by (simp add: seal_surface_material_def seal_switch_def cong: if_cong)
  show ?thesis
    by (simp add: script_rules_def main body seal)
qed

text \<open>
  C10. The size test of the brass case is defined for every diameter string; no step of
  the model has an error value, as \<open>includes\<close>, \<open>replace\<close> and \<open>parseFloat\<close> have none
  on strings. The size warning is in the recommendations exactly for brass with a
  diameter that passes the test, and the test passes only when the string contains
  \<open>dn100\<close> or its digits and dots read as a number above 100. For a string without a
  digit the number read is \<open>NaN\<close>, the comparison with 100 is false, the test fails, no
  size warning is given, and the rules give what they give for the empty diameter.
\<close>

theorem brass_size_override:
  "(BRASS_SIZE_WARNING \<in> set (recommendations (script_rules f))
      \<longleftrightarrow> bodyBonnetMaterial f = ''brass'' \<and> brass_diameter_test (nominalDiameter f))
   \<and> (brass_diameter_test (nominalDiameter f) \<longrightarrow>
        js_includes (nominalDiameter f) ''dn100''
        \<or> (\<exists>v. parseFloat (digits_and_dots (nominalDiameter f)) = Some v \<and> v > 100))
   \<and> ((\<forall>c \<in> set (nominalDiameter f). \<not> is_digit c) \<longrightarrow>
        parseFloat (digits_and_dots (nominalDiameter f)) = None
        \<and> \<not> gt_100 (parseFloat (digits_and_dots (nominalDiameter f)))
        \<and> \<not> brass_diameter_test (nominalDiameter f)
        \<and> BRASS_SIZE_WARNING \<notin> set (recommendations (script_rules f))
        \<and> script_rules f = script_rules (f\<lparr>nominalDiameter := []\<rparr>))"
proof (intro conjI impI)
  show "BRASS_SIZE_WARNING \<in> set (recommendations (script_rules f))
      \<longleftrightarrow> bodyBonnetMaterial f = ''brass'' \<and> brass_diameter_test (nominalDiameter f)"
    by (rule size_warning_in_rules)
next
  assume "brass_diameter_test (nominalDiameter f)"
  then show "js_includes (nominalDiameter f) ''dn100''
        \<or> (\<exists>v. parseFloat (digits_and_dots (nominalDiameter f)) = Some v \<and> v > 100)"
    by (rule brass_diameter_test_only_when)
next
  assume nd: "\<forall>c \<in> set (nominalDiameter f). \<not> is_digit c"
  then show nan: "parseFloat (digits_and_dots (nominalDiameter f)) = None"
    by (intro parseFloat_dots digits_and_dots_without_digit)
  then show "\<not> gt_100 (parseFloat (digits_and_dots (nominalDiameter f)))"
    by (simp add: gt_100_def)
  from nd show t: "\<not> brass_diameter_test (nominalDiameter f)"
    by (rule brass_diameter_test_without_digit)
  then show "BRASS_SIZE_WARNING \<notin> set (recommendations (script_rules f))"
    by (simp add: size_warning_in_rules)
  from t show "script_rules f = script_rules (f\<lparr>nominalDiameter := []\<rparr>)"
    by (intro script_rules_diameter) (simp add: brass_diameter_test_empty)
qed

text \<open>Brass with the diameters \<open>large\<close> and \<open>n.a.\<close>, which have no digit, and with
  \<open>dn150\<close>, which reads as 150.\<close>

theorem brass_size_override_witness:
  "BRASS_SIZE_WARNING \<notin> set (recommendations
       (script_rules (example ''on_off'' ''brass'' 50 20 [] ''large'' [])))
   \<and> parseFloat (digits_and_dots ''n.a.'') = None
   \<and> BRASS_SIZE_WARNING \<in> set (recommendations
       (script_rules (example ''on_off'' ''brass'' 50 20 [] ''dn150'' [])))"
proof -
  let ?large = "example ''on_off'' ''brass'' 50 20 [] ''large'' []"
  let ?na = "example ''on_off'' ''brass'' 50 20 [] ''n.a.'' []"
  let ?dn150 = "example ''on_off'' ''brass'' 50 20 [] ''dn150'' []"
  have "\<forall>c \<in> set (nominalDiameter ?large). \<not> is_digit c"
    by (simp add: example_def is_digit_def)
  with brass_size_override [of ?large]
  have 1: "BRASS_SIZE_WARNING \<notin> set (recommendations (script_rules ?large))"
    by blast
  have "\<forall>c \<in> set (nominalDiameter ?na). \<not> is_digit c"
    by (simp add: example_def is_digit_def)
  with brass_size_override [of ?na]
  have "parseFloat (digits_and_dots (nominalDiameter ?na)) = None"
    by blast
  then have 2: "parseFloat (digits_and_dots ''n.a.'') = None"
    by (simp add: example_def)
  have "bodyBonnetMaterial ?dn150 = ''brass'' \<and> brass_diameter_test (nominalDiameter ?dn150)"
    by (simp add: example_def brass_diameter_test_def gt_100_def parseFloat_def
        digits_and_dots_def is_digit_def digits_value_def digit_value_def)
  with brass_size_override [of ?dn150]
  have 3: "BRASS_SIZE_WARNING \<in> set (recommendations (script_rules ?dn150))"
    by blast
  from 1 2 3 show ?thesis by blast
qed

end
